theory Spec2Isabelle
  imports Main "HOL-Library.Sublist"
begin

section \<open>Event and error-code constants (src/lib/events.js)\<close>

text \<open>
  The two exported objects are literal key/value tables. Each is an association list in the
  order of the source, keys on the left; \<open>Object.values\<close> is \<open>map snd\<close>.
\<close>

definition VIEWER_EVENT :: "(string \<times> string) list" where
  "VIEWER_EVENT =
    [(''download'', ''download''),
     (''reload'', ''reload''),
     (''load'', ''load''),
     (''progressStart'', ''progressstart''),
     (''progressEnd'', ''progressend''),
     (''notificationShow'', ''notificationshow''),
     (''notificationHide'', ''notificationhide''),
     (''mediaEndAutoplay'', ''mediaendautoplay''),
     (''error'', ''error''),
     (''default'', ''viewerevent'')]"

definition ERROR_CODE :: "(string \<times> string) list" where
  "ERROR_CODE =
    [(''annotationsLoadFail'', ''error_annotations_load''),
     (''invalidCacheAttempt'', ''error_invalid_file_for_cache''),
     (''prefetchFileId'', ''error_prefetch_file_id''),
     (''rateLimit'', ''error_rate_limit''),
     (''retriesExceeded'', ''error_retries_exceeded'')]"

definition object_values :: "(string \<times> string) list \<Rightarrow> string list" where
  "object_values obj = map snd obj"

text \<open>A string is all-lowercase when each of its characters is one of the letters a to z.\<close>

definition lowercase_letter :: "char \<Rightarrow> bool" where
  "lowercase_letter c = (c \<in> set ''abcdefghijklmnopqrstuvwxyz'')"

definition all_lowercase :: "string \<Rightarrow> bool" where
  "all_lowercase s = list_all lowercase_letter s"


section \<open>Batch transformers (logTransformers.js)\<close>

text \<open>
  Opaque JavaScript values: what a log message or a metric value may hold, and what the
  \<open>value\<close> slot of an event carries. Objects are key/value lists in the order the source
  writes the keys.
\<close>

datatype jsval =
    JUndefined
  | JNull
  | JBool bool
  | JNum int
  | JStr string
  | JArr "jsval list"
  | JObj "(string \<times> jsval) list"

text \<open>A log record \<open>{timestamp, message}\<close>; a metric record's message is \<open>{metricCode, metricValue}\<close>.\<close>

record 'm log =
  timestamp :: string
  message :: 'm

record metric_message =
  metricCode :: string
  metricValue :: jsval

text \<open>An entry of a batch, \<open>{timestamp, code, value}\<close>, and the batch \<open>{event_type, events}\<close>.\<close>

record event =
  timestamp :: string
  code :: string
  "value" :: jsval

record batch =
  event_type :: string
  events :: "event list"

text \<open>
  Modelled from the spec: the table \<open>LOG_CODES\<close> of logConstants.js, which the transformers
  import and which is not among the source files at hand. The spec names the event types
  ERROR, WARNING, INFO and METRIC, as does the comment closing logTransformers.js.
\<close>

definition LOG_CODES_info :: string where
  "LOG_CODES_info = ''INFO''"

definition LOG_CODES_warning :: string where
  "LOG_CODES_warning = ''WARNING''"

definition LOG_CODES_error :: string where
  "LOG_CODES_error = ''ERROR''"

definition LOG_CODES_metric :: string where
  "LOG_CODES_metric = ''METRIC''"

definition makeBatchContainer :: "string \<Rightarrow> batch" where
  "makeBatchContainer ev = \<lparr>event_type = ev, events = []\<rparr>"

text \<open>The body of \<open>logs.forEach\<close> in \<open>transformGeneric\<close>: one push onto \<open>batch.events\<close> per log.\<close>

fun transformGeneric_forEach :: "string \<Rightarrow> jsval log list \<Rightarrow> batch \<Rightarrow> batch" where
  "transformGeneric_forEach ev [] b = b"
| "transformGeneric_forEach ev (l # logs) b =
     transformGeneric_forEach ev logs
       (b\<lparr>events := events b @
           [\<lparr>timestamp = log.timestamp l, code = ev, value = message l\<rparr>]\<rparr>)"

definition transformGeneric :: "string \<Rightarrow> jsval log list \<Rightarrow> batch" where
  "transformGeneric ev logs = transformGeneric_forEach ev logs (makeBatchContainer ev)"

definition transformWarnings :: "jsval log list \<Rightarrow> batch" where
  "transformWarnings logs = transformGeneric LOG_CODES_warning logs"

definition transformInfo :: "jsval log list \<Rightarrow> batch" where
  "transformInfo logs = transformGeneric LOG_CODES_info logs"

definition transformErrors :: "jsval log list \<Rightarrow> batch" where
  "transformErrors logs = transformGeneric LOG_CODES_error logs"

text \<open>
  \<open>transformMetrics\<close> reads two things defined outside the source files at hand: the constant
  \<open>METRIC_CONTROL\<close> of metricsConstants.js and the clock behind \<open>getISOTime()\<close>. Both are
  parameters: \<open>mc\<close> is the sentinel, \<open>now\<close> the string the clock returns at the call.
  The loop carries the batch and the side list \<open>controlEvents\<close>; a control entry is the
  object \<open>{timestamp, code: metricValue}\<close>.
\<close>

fun transformMetrics_forEach ::
  "string \<Rightarrow> metric_message log list \<Rightarrow> batch \<times> jsval list \<Rightarrow> batch \<times> jsval list" where
  "transformMetrics_forEach mc [] acc = acc"
| "transformMetrics_forEach mc (l # logs) (b, controlEvents) =
     (if metricCode (message l) = mc
      then transformMetrics_forEach mc logs
             (b, controlEvents @
                 [JObj [(''timestamp'', JStr (log.timestamp l)),
                        (''code'', metricValue (message l))]])
      else transformMetrics_forEach mc logs
             (b\<lparr>events := events b @
                 [\<lparr>timestamp = log.timestamp l,
                   code = metricCode (message l),
                   value = metricValue (message l)\<rparr>]\<rparr>,
              controlEvents))"

definition transformMetrics :: "string \<Rightarrow> string \<Rightarrow> metric_message log list \<Rightarrow> batch" where
  "transformMetrics mc now logs =
     (case transformMetrics_forEach mc logs (makeBatchContainer LOG_CODES_metric, []) of
        (b, controlEvents) \<Rightarrow>
          if length controlEvents \<noteq> 0
          then b\<lparr>events := events b @
                 [\<lparr>timestamp = now, code = mc, value = JArr controlEvents\<rparr>]\<rparr>
          else b)"

text \<open>The parts of a metric log list, as the claims name them.\<close>

definition is_control :: "string \<Rightarrow> metric_message log \<Rightarrow> bool" where
  "is_control mc l = (metricCode (message l) = mc)"

definition metric_event :: "metric_message log \<Rightarrow> event" where
  "metric_event l =
     \<lparr>timestamp = log.timestamp l, code = metricCode (message l),
      value = metricValue (message l)\<rparr>"

definition control_entry :: "metric_message log \<Rightarrow> jsval" where
  "control_entry l =
     JObj [(''timestamp'', JStr (log.timestamp l)), (''code'', metricValue (message l))]"


section \<open>The log layer (LogLayer.js)\<close>

text \<open>
  The members of \<open>LOG_TYPES\<close> and of \<open>CONSOLE_LEVELS\<close> that LogLayer.js names. A type the
  switches do not list (here \<open>LOG_metric\<close>) takes their \<open>default\<close> branch.
\<close>

datatype log_type = LOG_info | LOG_warning | LOG_error | LOG_uncaught_error | LOG_metric

datatype console_level = LEVEL_info | LEVEL_warning | LEVEL_error | LEVEL_silent

text \<open>
  What LogLayer.js imports from files that are not at hand, taken as parameters: the numeric
  value of each member of \<open>CONSOLE_LEVELS\<close>, the string of each member of \<open>LOG_TYPES\<close>
  (logConstants.js), and \<open>arrayToString\<close> (logUtils.js).
\<close>

record env =
  CONSOLE_LEVELS :: "console_level \<Rightarrow> int"
  LOG_TYPES :: "log_type \<Rightarrow> string"
  arrayToString :: "jsval list \<Rightarrow> string"

datatype console_fn = console_log | console_warn | console_error

text \<open>The calls the layer makes on the logger object, in the shape it passes them.\<close>

datatype logger_call =
    Logger_info "jsval list"
  | Logger_warn "jsval list"
  | Logger_error "jsval list"
  | Logger_metric string jsval
  | Logger_setFile jsval
  | Logger_setContentType jsval
  | Logger_setupNetworkLayer jsval
  | Logger_reset
  | Logger_save "log_type list"
  | Logger_clearCache

datatype js_error = TypeError

text \<open>
  The state a method runs in: the instance fields \<open>consoleLevel\<close> and \<open>loggerRef\<close>
  (\<open>None\<close> for undefined or null, otherwise the identity of a logger object), the slot
  \<open>global.Box\<close> (\<open>None\<close> when \<open>global.Box\<close> is falsy, \<open>Some None\<close> for an object with no
  \<open>Logger\<close>, \<open>Some (Some r)\<close> when \<open>global.Box.Logger\<close> is the logger \<open>r\<close>), the lines
  written to the console and the calls received by logger objects, both oldest first.
\<close>

record state =
  consoleLevel :: int
  loggerRef :: "nat option"
  global_Box :: "nat option option"
  console :: "(console_fn \<times> string) list"
  logger_calls :: "(nat \<times> logger_call) list"

definition setConsoleLevel :: "int \<Rightarrow> state \<Rightarrow> state" where
  "setConsoleLevel level s = s\<lparr>consoleLevel := level\<rparr>"

fun getConsoleFunction :: "log_type \<Rightarrow> console_fn" where
  "getConsoleFunction LOG_warning = console_warn"
| "getConsoleFunction LOG_error = console_error"
| "getConsoleFunction LOG_uncaught_error = console_error"
| "getConsoleFunction LOG_info = console_log"
| "getConsoleFunction _ = console_log"

definition canPrintLog :: "env \<Rightarrow> state \<Rightarrow> log_type \<Rightarrow> bool" where
  "canPrintLog k s type =
     (let typeValue =
        (case type of
           LOG_warning \<Rightarrow> CONSOLE_LEVELS k LEVEL_warning
         | LOG_error \<Rightarrow> CONSOLE_LEVELS k LEVEL_error
         | LOG_uncaught_error \<Rightarrow> CONSOLE_LEVELS k LEVEL_error
         | LOG_info \<Rightarrow> CONSOLE_LEVELS k LEVEL_info
         | _ \<Rightarrow> CONSOLE_LEVELS k LEVEL_info)
      in consoleLevel s \<le> typeValue)"

text \<open>
  \<open>this.loggerRef = this.loggerRef || (global.Box ? global.Box.Logger : null)\<close>, then
  \<open>!!this.loggerRef\<close>.
\<close>

definition boxLoggerExists :: "state \<Rightarrow> bool \<times> state" where
  "boxLoggerExists s =
     (let r = (case loggerRef s of
                 Some l \<Rightarrow> Some l
               | None \<Rightarrow> (case global_Box s of Some b \<Rightarrow> b | None \<Rightarrow> None))
      in (r \<noteq> None, s\<lparr>loggerRef := r\<rparr>))"

definition printLog :: "env \<Rightarrow> log_type \<Rightarrow> jsval list \<Rightarrow> state \<Rightarrow> state" where
  "printLog k type data s =
     (let logFunction = (if canPrintLog k s type then Some (getConsoleFunction type) else None)
      in case logFunction of
           None \<Rightarrow> s
         | Some f \<Rightarrow>
             (let message = arrayToString k data
              in s\<lparr>console := console s @ [(f, ''['' @ LOG_TYPES k type @ ''] '' @ message)]\<rparr>))"

text \<open>
  A method call \<open>this.loggerRef.m(...)\<close>: a TypeError when \<open>loggerRef\<close> is undefined or null,
  otherwise the call is received by the logger.
\<close>

definition call_logger :: "logger_call \<Rightarrow> state \<Rightarrow> js_error + state" where
  "call_logger c s =
     (case loggerRef s of
        None \<Rightarrow> Inl TypeError
      | Some r \<Rightarrow> Inr (s\<lparr>logger_calls := logger_calls s @ [(r, c)]\<rparr>))"

text \<open>
  The public methods. Each one that prints does so first; each then returns early when
  \<open>boxLoggerExists()\<close> is false and calls the logger otherwise.
\<close>

definition info :: "env \<Rightarrow> jsval list \<Rightarrow> state \<Rightarrow> js_error + state" where
  "info k args s =
     (case boxLoggerExists (printLog k LOG_info args s) of
        (exists, s1) \<Rightarrow> if \<not> exists then Inr s1 else call_logger (Logger_info args) s1)"

definition warn :: "env \<Rightarrow> jsval list \<Rightarrow> state \<Rightarrow> js_error + state" where
  "warn k args s =
     (case boxLoggerExists (printLog k LOG_warning args s) of
        (exists, s1) \<Rightarrow> if \<not> exists then Inr s1 else call_logger (Logger_warn args) s1)"

definition error :: "env \<Rightarrow> jsval list \<Rightarrow> state \<Rightarrow> js_error + state" where
  "error k args s =
     (case boxLoggerExists (printLog k LOG_error args s) of
        (exists, s1) \<Rightarrow> if \<not> exists then Inr s1 else call_logger (Logger_error args) s1)"

definition metric :: "env \<Rightarrow> string \<Rightarrow> jsval \<Rightarrow> state \<Rightarrow> js_error + state" where
  "metric k eventName v s =
     (case boxLoggerExists (printLog k LOG_metric [JStr eventName, v] s) of
        (exists, s1) \<Rightarrow>
          if \<not> exists then Inr s1 else call_logger (Logger_metric eventName v) s1)"

definition setFile :: "jsval \<Rightarrow> state \<Rightarrow> js_error + state" where
  "setFile file s =
     (case boxLoggerExists s of
        (exists, s1) \<Rightarrow> if \<not> exists then Inr s1 else call_logger (Logger_setFile file) s1)"

definition setContentType :: "jsval \<Rightarrow> state \<Rightarrow> js_error + state" where
  "setContentType type s =
     (case boxLoggerExists s of
        (exists, s1) \<Rightarrow>
          if \<not> exists then Inr s1 else call_logger (Logger_setContentType type) s1)"

definition setupNetworkLayer :: "jsval \<Rightarrow> state \<Rightarrow> js_error + state" where
  "setupNetworkLayer config s =
     (case boxLoggerExists s of
        (exists, s1) \<Rightarrow>
          if \<not> exists then Inr s1 else call_logger (Logger_setupNetworkLayer config) s1)"

definition reset :: "state \<Rightarrow> js_error + state" where
  "reset s =
     (case boxLoggerExists s of
        (exists, s1) \<Rightarrow> if \<not> exists then Inr s1 else call_logger Logger_reset s1)"

definition save :: "state \<Rightarrow> js_error + state" where
  "save s =
     (case boxLoggerExists s of
        (exists, s1) \<Rightarrow>
          if \<not> exists then Inr s1
          else (case call_logger (Logger_save [LOG_error, LOG_metric]) s1 of
                  Inl e \<Rightarrow> Inl e
                | Inr s2 \<Rightarrow> call_logger Logger_clearCache s2))"

text \<open>
  The spec's order of the console levels, info < warning < error < silent, as a rank, and the
  level a log type is printed at: an uncaught error as an error, a metric as info.
\<close>

fun severity :: "console_level \<Rightarrow> nat" where
  "severity LEVEL_info = 0"
| "severity LEVEL_warning = 1"
| "severity LEVEL_error = 2"
| "severity LEVEL_silent = 3"

fun type_level :: "log_type \<Rightarrow> console_level" where
  "type_level LOG_info = LEVEL_info"
| "type_level LOG_warning = LEVEL_warning"
| "type_level LOG_error = LEVEL_error"
| "type_level LOG_uncaught_error = LEVEL_error"
| "type_level LOG_metric = LEVEL_info"

text \<open>No logger is reachable: neither the cached reference nor \<open>global.Box.Logger\<close>.\<close>

definition no_logger :: "state \<Rightarrow> bool" where
  "no_logger s = (loggerRef s = None \<and> (global_Box s = None \<or> global_Box s = Some None))"

text \<open>Sample parameters: levels numbered 0 to 3, types printed by their names, arguments joined by commas.\<close>

fun sample_levels :: "console_level \<Rightarrow> int" where
  "sample_levels LEVEL_info = 0"
| "sample_levels LEVEL_warning = 1"
| "sample_levels LEVEL_error = 2"
| "sample_levels LEVEL_silent = 3"

fun sample_types :: "log_type \<Rightarrow> string" where
  "sample_types LOG_info = ''info''"
| "sample_types LOG_warning = ''warning''"
| "sample_types LOG_error = ''error''"
| "sample_types LOG_uncaught_error = ''uncaught_error''"
| "sample_types LOG_metric = ''metric''"

fun sample_show :: "jsval \<Rightarrow> string" where
  "sample_show (JStr x) = x"
| "sample_show _ = ''?''"

fun sample_join :: "jsval list \<Rightarrow> string" where
  "sample_join [] = []"
| "sample_join [x] = sample_show x"
| "sample_join (x # xs) = sample_show x @ '','' @ sample_join xs"

definition sample_env :: env where
  "sample_env =
     \<lparr>CONSOLE_LEVELS = sample_levels, LOG_TYPES = sample_types, arrayToString = sample_join\<rparr>"

definition sample_state :: state where
  "sample_state =
     \<lparr>consoleLevel = 0, loggerRef = None, global_Box = None, console = [], logger_calls = []\<rparr>"


section \<open>Properties of the constants\<close>

text \<open>
  C1. The values of \<open>VIEWER_EVENT\<close> are exactly the ten strings download, reload, load,
  progressstart, progressend, notificationshow, notificationhide, mediaendautoplay, error and
  viewerevent: the set of values is that set, and the table has ten entries.
\<close>
theorem VIEWER_EVENT_values:
  "set (object_values VIEWER_EVENT) =
     {''download'', ''reload'', ''load'', ''progressstart'', ''progressend'',
      ''notificationshow'', ''notificationhide'', ''mediaendautoplay'', ''error'',
      ''viewerevent''}
   \<and> length (object_values VIEWER_EVENT) = 10"
  by (simp add: VIEWER_EVENT_def object_values_def)

text \<open>
  C2. The values of \<open>ERROR_CODE\<close> are exactly the five strings error_annotations_load,
  error_invalid_file_for_cache, error_prefetch_file_id, error_rate_limit and
  error_retries_exceeded: the set of values is that set, and the table has five entries.
\<close>
theorem ERROR_CODE_values:
  "set (object_values ERROR_CODE) =
     {''error_annotations_load'', ''error_invalid_file_for_cache'', ''error_prefetch_file_id'',
      ''error_rate_limit'', ''error_retries_exceeded''}
   \<and> length (object_values ERROR_CODE) = 5"
  by (simp add: ERROR_CODE_def object_values_def)

text \<open>
  C9. The values of \<open>VIEWER_EVENT\<close> are pairwise distinct, and so are the values of
  \<open>ERROR_CODE\<close>.
\<close>
theorem values_distinct:
  "distinct (object_values VIEWER_EVENT) \<and> distinct (object_values ERROR_CODE)"
  by (simp add: VIEWER_EVENT_def ERROR_CODE_def object_values_def)

text \<open>
  C10. Every value of \<open>ERROR_CODE\<close> is a non-empty string that starts with \<open>error_\<close>, and
  every value of \<open>VIEWER_EVENT\<close> is a non-empty string of lowercase letters.
\<close>
theorem values_shape:
  "(\<forall>v \<in> set (object_values ERROR_CODE). v \<noteq> [] \<and> prefix ''error_'' v)
   \<and> (\<forall>v \<in> set (object_values VIEWER_EVENT). v \<noteq> [] \<and> all_lowercase v)"
  by (simp add: VIEWER_EVENT_def ERROR_CODE_def object_values_def all_lowercase_def
      lowercase_letter_def)

text \<open>The theorem at the values \<open>error_rate_limit\<close> and \<open>progressstart\<close>.\<close>
theorem values_shape_witness:
  "prefix ''error_'' ''error_rate_limit'' \<and> all_lowercase ''progressstart''"
proof -
  have a: "''error_rate_limit'' \<in> set (object_values ERROR_CODE)"
    by (simp add: ERROR_CODE_def object_values_def)
  have b: "''progressstart'' \<in> set (object_values VIEWER_EVENT)"
    by (simp add: VIEWER_EVENT_def object_values_def)
  from values_shape a b show ?thesis by blast
qed


section \<open>Properties of the batch transformers\<close>

text \<open>The loop of \<open>transformGeneric\<close> appends one event per log, in order, to any batch.\<close>
lemma transformGeneric_forEach_map:
  "transformGeneric_forEach ev logs b =
     b\<lparr>events := events b @
         map (\<lambda>l. \<lparr>timestamp = log.timestamp l, code = ev, value = message l\<rparr>) logs\<rparr>"
  by (induction logs arbitrary: b) simp_all

text \<open>
  The loop of \<open>transformMetrics\<close> splits the logs: the records that are not control records
  go to the batch, the control records to the side list, each part in input order.
\<close>
lemma transformMetrics_forEach_split:
  "transformMetrics_forEach mc logs (b, ces) =
     (b\<lparr>events := events b @ map metric_event (filter (\<lambda>l. \<not> is_control mc l) logs)\<rparr>,
      ces @ map control_entry (filter (is_control mc) logs))"
proof (induction logs arbitrary: b ces)
  case Nil
  show ?case by simp
next
  case (Cons l logs)
  show ?case
  proof (cases "is_control mc l")
    case True
    then show ?thesis
      using Cons.IH [of b "ces @ [control_entry l]"]
      by (simp add: is_control_def control_entry_def)
  next
    case False
    then show ?thesis
      using Cons.IH [of "b\<lparr>events := events b @ [metric_event l]\<rparr>" ces]
      by (simp add: is_control_def metric_event_def)
  qed
qed

text \<open>
  C4. For every event code \<open>c\<close> (the metric code included, so in particular for every other
  one) and every list of records \<open>rs\<close>, empty or not, \<open>transformGeneric c rs\<close> is the batch
  whose \<open>event_type\<close> is \<open>c\<close> and whose events are, in the order of \<open>rs\<close> and as many as
  \<open>rs\<close> has, \<open>{timestamp: r.timestamp, code: c, value: r.message}\<close>.
\<close>
theorem transformGeneric_batch:
  "transformGeneric c rs =
     \<lparr>event_type = c,
      events = map (\<lambda>r. \<lparr>timestamp = log.timestamp r, code = c, value = message r\<rparr>) rs\<rparr>
   \<and> length (events (transformGeneric c rs)) = length rs"
  by (simp add: transformGeneric_def makeBatchContainer_def transformGeneric_forEach_map)

text \<open>
  C6. On the empty list \<open>transformGeneric c []\<close> is the batch of type \<open>c\<close> with no events, and
  \<open>transformMetrics\<close> returns \<open>{event_type: METRIC, events: []}\<close>, with no trailing control
  event, whatever the sentinel and the clock.
\<close>
theorem transform_empty:
  "transformGeneric c [] = \<lparr>event_type = c, events = []\<rparr>
   \<and> transformMetrics mc now [] = \<lparr>event_type = ''METRIC'', events = []\<rparr>"
  by (simp add: transformGeneric_def transformMetrics_def makeBatchContainer_def
      LOG_CODES_metric_def)

text \<open>
  C5, as the code has it. For every list of metric records with at least one control record,
  \<open>transformMetrics\<close> returns the METRIC batch whose events are the records that are not
  control records, in input order, as \<open>{timestamp, code: metricCode, value: metricValue}\<close>,
  followed by exactly one event whose code is the sentinel, whose timestamp is the time of the
  call, and whose value is the list, in input order, of one object
  \<open>{timestamp: record.timestamp, code: record.metricValue}\<close> per control record.
\<close>
theorem transformMetrics_control:
  assumes "\<exists>l \<in> set logs. is_control mc l"
  shows "transformMetrics mc now logs =
     \<lparr>event_type = LOG_CODES_metric,
      events = map metric_event (filter (\<lambda>l. \<not> is_control mc l) logs) @
        [\<lparr>timestamp = now, code = mc,
          value = JArr (map control_entry (filter (is_control mc) logs))\<rparr>]\<rparr>"
proof -
  from assms have "filter (is_control mc) logs \<noteq> []"
    by (simp add: filter_empty_conv)
  then show ?thesis
    by (simp add: transformMetrics_def transformMetrics_forEach_split makeBatchContainer_def)
qed

text \<open>
  The theorem on four records, two of them control records, with the sentinel \<open>control\<close> and
  the clock at \<open>now\<close>.
\<close>
theorem transformMetrics_control_witness:
  "transformMetrics ''control'' ''now''
     [\<lparr>log.timestamp = ''t1'', message = \<lparr>metricCode = ''m1'', metricValue = JNum 5\<rparr>\<rparr>,
      \<lparr>log.timestamp = ''t2'', message = \<lparr>metricCode = ''control'', metricValue = JStr ''m1''\<rparr>\<rparr>,
      \<lparr>log.timestamp = ''t3'', message = \<lparr>metricCode = ''m2'', metricValue = JNum 7\<rparr>\<rparr>,
      \<lparr>log.timestamp = ''t4'', message = \<lparr>metricCode = ''control'', metricValue = JStr ''m2''\<rparr>\<rparr>]
   = \<lparr>event_type = ''METRIC'',
      events =
        [\<lparr>timestamp = ''t1'', code = ''m1'', value = JNum 5\<rparr>,
         \<lparr>timestamp = ''t3'', code = ''m2'', value = JNum 7\<rparr>,
         \<lparr>timestamp = ''now'', code = ''control'',
          value = JArr [JObj [(''timestamp'', JStr ''t2''), (''code'', JStr ''m1'')],
                        JObj [(''timestamp'', JStr ''t4''), (''code'', JStr ''m2'')]]\<rparr>]\<rparr>"
proof -
  let ?logs = "[\<lparr>log.timestamp = ''t1'', message = \<lparr>metricCode = ''m1'', metricValue = JNum 5\<rparr>\<rparr>,
      \<lparr>log.timestamp = ''t2'', message = \<lparr>metricCode = ''control'', metricValue = JStr ''m1''\<rparr>\<rparr>,
      \<lparr>log.timestamp = ''t3'', message = \<lparr>metricCode = ''m2'', metricValue = JNum 7\<rparr>\<rparr>,
      \<lparr>log.timestamp = ''t4'', message = \<lparr>metricCode = ''control'', metricValue = JStr ''m2''\<rparr>\<rparr>]"
  have h: "\<exists>l \<in> set ?logs. is_control ''control'' l"
    by (simp add: is_control_def)
  show ?thesis
    using transformMetrics_control [OF h, of "''now''"]
    by (simp add: is_control_def metric_event_def control_entry_def LOG_CODES_metric_def)
qed

text \<open>
  C5 as the claim words it says that the value of the trailing event is the list of the control
  records' \<open>metricValue\<close> fields. On a metric record at \<open>t1\<close> followed by a control record at
  \<open>t2\<close> whose \<open>metricValue\<close> is \<open>m1\<close>, that list would be \<open>[m1]\<close>; the code returns
  \<open>[{timestamp: t2, code: m1}]\<close>.
\<close>

theorem transformMetrics_value_counterexample:
  "value (last (events (transformMetrics ''control'' ''now''
     [\<lparr>log.timestamp = ''t1'', message = \<lparr>metricCode = ''m1'', metricValue = JNum 5\<rparr>\<rparr>,
      \<lparr>log.timestamp = ''t2'',
       message = \<lparr>metricCode = ''control'', metricValue = JStr ''m1''\<rparr>\<rparr>])))
     = JArr [JObj [(''timestamp'', JStr ''t2''), (''code'', JStr ''m1'')]]
   \<and> value (last (events (transformMetrics ''control'' ''now''
     [\<lparr>log.timestamp = ''t1'', message = \<lparr>metricCode = ''m1'', metricValue = JNum 5\<rparr>\<rparr>,
      \<lparr>log.timestamp = ''t2'',
       message = \<lparr>metricCode = ''control'', metricValue = JStr ''m1''\<rparr>\<rparr>])))
     \<noteq> JArr [JStr ''m1'']"
  by (simp add: transformMetrics_def makeBatchContainer_def LOG_CODES_metric_def)


section \<open>Properties of the log layer\<close>

text \<open>With no logger reachable, \<open>boxLoggerExists\<close> answers false and leaves the state as it is.\<close>
lemma boxLoggerExists_absent: "no_logger s \<Longrightarrow> boxLoggerExists s = (False, s)"
  by (auto simp add: no_logger_def boxLoggerExists_def)

text \<open>Printing touches the console only.\<close>
lemma no_logger_printLog: "no_logger (printLog k t d s) = no_logger s"
  by (simp add: no_logger_def printLog_def Let_def)

lemma console_printLog:
  "console (printLog k t d s) =
     console s @
       (if canPrintLog k s t
        then [(getConsoleFunction t, ''['' @ LOG_TYPES k t @ ''] '' @ arrayToString k d)]
        else [])"
  by (simp add: printLog_def Let_def)

lemma logger_calls_printLog: "logger_calls (printLog k t d s) = logger_calls s"
  by (simp add: printLog_def Let_def)

text \<open>
  C3. Let the numeric values of \<open>CONSOLE_LEVELS\<close> be ordered info < warning < error < silent.
  Then for every log type \<open>L\<close> and every threshold \<open>T\<close>, \<open>canPrintLog\<close> under the threshold
  \<open>T\<close> is true exactly when the severity of \<open>L\<close> is at least the severity of \<open>T\<close>, and under
  the threshold silent it is false for every \<open>L\<close>. The severity of a log type is that of the
  level it is printed at: info, warning and error at their own, an uncaught error at error and
  a metric at info.
\<close>
theorem canPrintLog_iff_severity:
  assumes "CONSOLE_LEVELS k LEVEL_info < CONSOLE_LEVELS k LEVEL_warning"
    and "CONSOLE_LEVELS k LEVEL_warning < CONSOLE_LEVELS k LEVEL_error"
    and "CONSOLE_LEVELS k LEVEL_error < CONSOLE_LEVELS k LEVEL_silent"
  shows "canPrintLog k (setConsoleLevel (CONSOLE_LEVELS k T) s) L
           = (severity T \<le> severity (type_level L))
         \<and> \<not> canPrintLog k (setConsoleLevel (CONSOLE_LEVELS k LEVEL_silent) s) L"
proof -
  have a: "canPrintLog k (setConsoleLevel v s) L
             = (v \<le> CONSOLE_LEVELS k (type_level L))" for v
    by (cases L) (simp_all add: canPrintLog_def setConsoleLevel_def)
  have b: "(CONSOLE_LEVELS k T' \<le> CONSOLE_LEVELS k U) = (severity T' \<le> severity U)" for T' U
    using assms by (cases T'; cases U) simp_all
  have c: "severity (type_level L) < severity LEVEL_silent"
    by (cases L) simp_all
  show ?thesis
    using b [of T "type_level L"] b [of LEVEL_silent "type_level L"] c
    by (simp add: a)
qed

text \<open>
  The theorem with the levels numbered 0 to 3: an error prints under the threshold warning, a
  metric does not print under the threshold error, nothing prints under silent.
\<close>
theorem canPrintLog_iff_severity_witness:
  "canPrintLog sample_env (setConsoleLevel (sample_levels LEVEL_warning) sample_state) LOG_error
   \<and> \<not> canPrintLog sample_env (setConsoleLevel (sample_levels LEVEL_error) sample_state) LOG_metric
   \<and> \<not> canPrintLog sample_env (setConsoleLevel (sample_levels LEVEL_silent) sample_state) LOG_error"
proof -
  have h1: "CONSOLE_LEVELS sample_env LEVEL_info < CONSOLE_LEVELS sample_env LEVEL_warning"
    by (simp add: sample_env_def)
  have h2: "CONSOLE_LEVELS sample_env LEVEL_warning < CONSOLE_LEVELS sample_env LEVEL_error"
    by (simp add: sample_env_def)
  have h3: "CONSOLE_LEVELS sample_env LEVEL_error < CONSOLE_LEVELS sample_env LEVEL_silent"
    by (simp add: sample_env_def)
  show ?thesis
    using canPrintLog_iff_severity [OF h1 h2 h3, of LEVEL_warning sample_state LOG_error]
      canPrintLog_iff_severity [OF h1 h2 h3, of LEVEL_error sample_state LOG_metric]
    by (simp add: sample_env_def)
qed

text \<open>
  C7. Whenever a logger is present (cached in \<open>loggerRef\<close> or found at \<open>global.Box.Logger\<close>),
  \<open>save\<close> completes and the logger receives exactly two calls from it: first \<open>save\<close> with the
  kinds \<open>[LOG_TYPES.error, LOG_TYPES.metric]\<close>, then \<open>clearCache\<close>. The clear is never before
  the persist.
\<close>
theorem save_persist_then_clear:
  assumes "\<not> no_logger s"
  shows "\<exists>r s'. save s = Inr s' \<and> loggerRef s' = Some r
           \<and> logger_calls s' =
               logger_calls s @ [(r, Logger_save [LOG_error, LOG_metric]), (r, Logger_clearCache)]"
proof -
  from assms obtain r where r: "boxLoggerExists s = (True, s\<lparr>loggerRef := Some r\<rparr>)"
    by (cases "loggerRef s"; cases "global_Box s") (auto simp add: no_logger_def boxLoggerExists_def Let_def)
  show ?thesis
    by (simp add: save_def r call_logger_def)
qed

text \<open>The theorem in a state whose \<open>global.Box.Logger\<close> is the logger 7.\<close>
theorem save_persist_then_clear_witness:
  "\<not> no_logger (sample_state\<lparr>global_Box := Some (Some 7)\<rparr>)
   \<and> (\<exists>s'. save (sample_state\<lparr>global_Box := Some (Some 7)\<rparr>) = Inr s'
         \<and> logger_calls s' = [(7, Logger_save [LOG_error, LOG_metric]), (7, Logger_clearCache)])"
proof -
  have h: "\<not> no_logger (sample_state\<lparr>global_Box := Some (Some 7)\<rparr>)"
    by (simp add: no_logger_def sample_state_def)
  show ?thesis
    using h save_persist_then_clear [OF h]
    by (simp add: save_def boxLoggerExists_def call_logger_def sample_state_def Let_def)
qed

text \<open>
  C8. With no logger present, none of \<open>info\<close>, \<open>warn\<close>, \<open>error\<close>, \<open>metric\<close>, \<open>setFile\<close>,
  \<open>setContentType\<close>, \<open>setupNetworkLayer\<close>, \<open>reset\<close> and \<open>save\<close> raises: each returns
  normally. The five passthrough methods leave the state as it is; the four logging methods
  leave the state that printing leaves, in which the logger has received nothing and the
  console has gained the formatted line exactly when the threshold permits the type.
\<close>
theorem no_logger_no_exception:
  assumes "no_logger s"
  shows "info k args s = Inr (printLog k LOG_info args s)
       \<and> warn k args s = Inr (printLog k LOG_warning args s)
       \<and> error k args s = Inr (printLog k LOG_error args s)
       \<and> metric k eventName v s = Inr (printLog k LOG_metric [JStr eventName, v] s)
       \<and> setFile file s = Inr s
       \<and> setContentType ty s = Inr s
       \<and> setupNetworkLayer config s = Inr s
       \<and> reset s = Inr s
       \<and> save s = Inr s
       \<and> logger_calls (printLog k t d s) = logger_calls s
       \<and> console (printLog k t d s) =
           console s @
             (if canPrintLog k s t
              then [(getConsoleFunction t, ''['' @ LOG_TYPES k t @ ''] '' @ arrayToString k d)]
              else [])"
proof -
  have p: "boxLoggerExists (printLog k t' d' s) = (False, printLog k t' d' s)" for t' d'
    using assms by (simp add: boxLoggerExists_absent no_logger_printLog)
  have q: "boxLoggerExists s = (False, s)"
    using assms by (rule boxLoggerExists_absent)
  have "info k args s = Inr (printLog k LOG_info args s)"
    by (simp add: info_def p)
  moreover have "warn k args s = Inr (printLog k LOG_warning args s)"
    by (simp add: warn_def p)
  moreover have "error k args s = Inr (printLog k LOG_error args s)"
    by (simp add: error_def p)
  moreover have "metric k eventName v s = Inr (printLog k LOG_metric [JStr eventName, v] s)"
    by (simp add: metric_def p)
  moreover have "setFile file s = Inr s"
    by (simp add: setFile_def q)
  moreover have "setContentType ty s = Inr s"
    by (simp add: setContentType_def q)
  moreover have "setupNetworkLayer config s = Inr s"
    by (simp add: setupNetworkLayer_def q)
  moreover have "reset s = Inr s"
    by (simp add: reset_def q)
  moreover have "save s = Inr s"
    by (simp add: save_def q)
  ultimately show ?thesis
    by (simp only: console_printLog logger_calls_printLog simp_thms)
qed

text \<open>
  The theorem in the sample state, which has no logger: \<open>info\<close> at the threshold info prints
  one line, \<open>error\<close> at the threshold silent prints nothing, \<open>save\<close> changes nothing.
\<close>
theorem no_logger_no_exception_witness:
  "no_logger sample_state
   \<and> info sample_env [JStr ''a'', JStr ''b''] sample_state
       = Inr (sample_state\<lparr>console := [(console_log, ''[info] a,b'')]\<rparr>)
   \<and> error sample_env [JStr ''a''] (setConsoleLevel 3 sample_state)
       = Inr (setConsoleLevel 3 sample_state)
   \<and> save sample_state = Inr sample_state"
proof -
  have h: "no_logger sample_state"
    by (simp add: no_logger_def sample_state_def)
  have h3: "no_logger (setConsoleLevel 3 sample_state)"
    by (simp add: no_logger_def sample_state_def setConsoleLevel_def)
  show ?thesis
    using h no_logger_no_exception [OF h, of sample_env "[JStr ''a'', JStr ''b'']"]
      no_logger_no_exception [OF h3, of sample_env "[JStr ''a'']"]
    by (simp add: printLog_def canPrintLog_def sample_env_def sample_state_def
        setConsoleLevel_def)
qed

end
